theory Spec2Isabelle
  imports Complex_Main
begin

unbundle bit_operations_syntax

section \<open>Numbers of the engine\<close>

text \<open>
  The engine (\<^verbatim>\<open>webapp/src/lib/simulation.ts\<close>) computes with JavaScript numbers.
  The protocol parameters are finite numbers and are modelled as reals; a value that is
  computed from them by addition, subtraction, multiplication or a division whose divisor
  the code has tested to be positive is finite as well and stays a real.  A value that
  comes out of an unguarded division can be an infinity or NaN, and everything computed
  from such a value is a \<open>jsnum\<close>.  Arithmetic on finite values is exact: rounding,
  overflow and underflow of the 64-bit format are not modelled, and \<^verbatim>\<open>Math.exp\<close> and
  \<^verbatim>\<open>Math.sqrt\<close> are the real functions.  A zero carries no sign, with one exception
  written out below: the divisor \<open>p_w * beta\<close> of \<open>computeMinViableStake\<close>.
\<close>

datatype jsnum = Fin real | PInf | NInf | NaN

text \<open>Division of two finite numbers. \<open>negzero\<close> says that a zero divisor is the
  negative zero; a zero dividend gives NaN whatever its sign.\<close>

definition jdiv_by :: "real \<Rightarrow> real \<Rightarrow> bool \<Rightarrow> jsnum" where
  "jdiv_by a b negzero =
     (if b \<noteq> 0 then Fin (a / b)
      else if a = 0 then NaN
      else if (0 < a) \<noteq> negzero then PInf else NInf)"

definition jdiv :: "real \<Rightarrow> real \<Rightarrow> jsnum" where
  "jdiv a b = jdiv_by a b False"

text \<open>The product of two finite numbers, neither of them a negative zero, is the
  negative zero exactly when one factor is zero and the other negative.\<close>

definition mul_negzero :: "real \<Rightarrow> real \<Rightarrow> bool" where
  "mul_negzero x y = ((x = 0 \<and> y < 0) \<or> (x < 0 \<and> y = 0))"

fun jneg :: "jsnum \<Rightarrow> jsnum" where
  "jneg (Fin a) = Fin (- a)"
| "jneg PInf = NInf"
| "jneg NInf = PInf"
| "jneg NaN = NaN"

fun jadd :: "jsnum \<Rightarrow> jsnum \<Rightarrow> jsnum" where
  "jadd (Fin a) (Fin b) = Fin (a + b)"
| "jadd NaN _ = NaN"
| "jadd _ NaN = NaN"
| "jadd PInf NInf = NaN"
| "jadd NInf PInf = NaN"
| "jadd PInf _ = PInf"
| "jadd _ PInf = PInf"
| "jadd NInf _ = NInf"
| "jadd _ NInf = NInf"

definition jsub :: "jsnum \<Rightarrow> jsnum \<Rightarrow> jsnum" where
  "jsub x y = jadd x (jneg y)"

fun jsgn :: "jsnum \<Rightarrow> real" where
  "jsgn (Fin a) = sgn a"
| "jsgn PInf = 1"
| "jsgn NInf = - 1"
| "jsgn NaN = 0"

fun jmul :: "jsnum \<Rightarrow> jsnum \<Rightarrow> jsnum" where
  "jmul (Fin a) (Fin b) = Fin (a * b)"
| "jmul NaN _ = NaN"
| "jmul _ NaN = NaN"
| "jmul x y =
     (if jsgn x * jsgn y = 0 then NaN else if 0 < jsgn x * jsgn y then PInf else NInf)"

text \<open>Division of two numbers; a zero divisor is the positive zero.\<close>

fun jdivide :: "jsnum \<Rightarrow> jsnum \<Rightarrow> jsnum" where
  "jdivide (Fin a) (Fin b) = jdiv a b"
| "jdivide NaN _ = NaN"
| "jdivide _ NaN = NaN"
| "jdivide (Fin a) _ = Fin 0"
| "jdivide PInf (Fin b) = (if 0 \<le> b then PInf else NInf)"
| "jdivide NInf (Fin b) = (if 0 \<le> b then NInf else PInf)"
| "jdivide _ _ = NaN"

text \<open>The comparisons \<^verbatim>\<open><\<close>, \<^verbatim>\<open>>\<close> and \<^verbatim>\<open>>=\<close>: false as soon as one side is NaN.\<close>

fun jlt :: "jsnum \<Rightarrow> jsnum \<Rightarrow> bool" where
  "jlt (Fin a) (Fin b) = (a < b)"
| "jlt NaN _ = False"
| "jlt _ NaN = False"
| "jlt _ NInf = False"
| "jlt PInf _ = False"
| "jlt _ _ = True"

definition jgt :: "jsnum \<Rightarrow> jsnum \<Rightarrow> bool" where
  "jgt x y = jlt y x"

fun jge :: "jsnum \<Rightarrow> jsnum \<Rightarrow> bool" where
  "jge (Fin a) (Fin b) = (b \<le> a)"
| "jge NaN _ = False"
| "jge _ NaN = False"
| "jge PInf _ = True"
| "jge _ NInf = True"
| "jge _ _ = False"

text \<open>\<^verbatim>\<open>Math.max\<close>, \<^verbatim>\<open>Math.min\<close> and \<^verbatim>\<open>Math.sqrt\<close>: NaN as soon as an argument is NaN.\<close>

fun jmax :: "jsnum \<Rightarrow> jsnum \<Rightarrow> jsnum" where
  "jmax (Fin a) (Fin b) = Fin (max a b)"
| "jmax NaN _ = NaN"
| "jmax _ NaN = NaN"
| "jmax PInf _ = PInf"
| "jmax _ PInf = PInf"
| "jmax NInf y = y"
| "jmax x NInf = x"

fun jmin :: "jsnum \<Rightarrow> jsnum \<Rightarrow> jsnum" where
  "jmin (Fin a) (Fin b) = Fin (min a b)"
| "jmin NaN _ = NaN"
| "jmin _ NaN = NaN"
| "jmin NInf _ = NInf"
| "jmin _ NInf = NInf"
| "jmin PInf y = y"
| "jmin x PInf = x"

fun jsqrt :: "jsnum \<Rightarrow> jsnum" where
  "jsqrt (Fin a) = (if a < 0 then NaN else Fin (sqrt a))"
| "jsqrt PInf = PInf"
| "jsqrt NInf = NaN"
| "jsqrt NaN = NaN"




section \<open>Data model\<close>

record ProtocolParams =
  S_P :: real
  P_set :: real
  c_H :: real
  c_F :: real
  C_safe :: real
  c_proof :: real
  c_tx :: real
  beta :: real
  lambda :: real
  p_w :: real
  B_C :: real
  L :: real
  v_min :: real

record EquilibriumValues =
  v_star :: jsnum
  q_star :: real
  theta :: jsnum
  Delta :: real
  S_P_min :: jsnum
  mu_star :: real
  isEnforcementViable :: bool
  isICsatisfied :: bool
  expectedProviderUtility :: real
  expectedClientUtility :: jsnum

definition DEFAULT_PARAMS :: ProtocolParams where
  "DEFAULT_PARAMS =
     \<lparr> S_P = 100, P_set = 50, c_H = 5.0, c_F = 0.5, C_safe = 8.0, c_proof = 2.0,
       c_tx = 1.0, beta = 0.5, lambda = 1.0, p_w = 0.95, B_C = 5.0, L = 50,
       v_min = 0.02 \<rparr>"


section \<open>Equilibrium solver\<close>

definition computeDelta :: "ProtocolParams \<Rightarrow> real" where
  "computeDelta params =
     p_w params * (beta params * S_P params + lambda params * P_set params)
       - (c_proof params + c_tx params) - (1 - p_w params) * B_C params"

definition computeTheta :: "ProtocolParams \<Rightarrow> jsnum" where
  "computeTheta params = jdiv (c_H params - c_F params) (P_set params + S_P params)"

definition computeMinViableStake :: "ProtocolParams \<Rightarrow> jsnum" where
  "computeMinViableStake params =
     (let C_disp = C_safe params + c_proof params + c_tx params;
          numerator = C_disp + (1 - p_w params) * B_C params
                        - p_w params * lambda params * P_set params;
          denominator = p_w params * beta params
      in jmax (Fin 0)
           (jdiv_by numerator denominator (mul_negzero (p_w params) (beta params))))"

definition computeVStar :: "ProtocolParams \<Rightarrow> jsnum" where
  "computeVStar params = computeTheta params"

definition computeQStar :: "ProtocolParams \<Rightarrow> real" where
  "computeQStar params =
     (let Delta = computeDelta params in
      if L params + Delta \<le> 0 then 1.0
      else min 1.0 (C_safe params / (L params + Delta)))"

definition computeEquilibrium :: "ProtocolParams \<Rightarrow> EquilibriumValues" where
  "computeEquilibrium params =
     (let v_star = computeVStar params;
          q_star = computeQStar params;
          theta = computeTheta params;
          Delta = computeDelta params;
          S_P_min = computeMinViableStake params;
          mu_star = q_star;
          isEnforcementViable = jge (Fin (S_P params)) S_P_min;
          isICsatisfied = jge v_star theta;
          expectedProviderUtility = P_set params - c_H params;
          expectedClientUtility =
            jadd
              (jsub
                 (jsub (Fin (- P_set params)) (jmul v_star (Fin (C_safe params))))
                 (jmul (jmul (jsub (Fin 1) v_star) (Fin q_star)) (Fin (L params))))
              (jmul (jmul v_star (Fin q_star)) (Fin Delta))
      in \<lparr> v_star = v_star, q_star = q_star, theta = theta, Delta = Delta,
           S_P_min = S_P_min, mu_star = mu_star,
           isEnforcementViable = isEnforcementViable, isICsatisfied = isICsatisfied,
           expectedProviderUtility = expectedProviderUtility,
           expectedClientUtility = expectedClientUtility \<rparr>)"


section \<open>Seeded generator\<close>

text \<open>
  \<^verbatim>\<open>this.seed = (this.seed * 1103515245 + 12345) & 0x7fffffff\<close> multiplies and adds
  in 64-bit floating point before the bitwise operator truncates to 32 bits.  A seed
  below \<open>2 ^ 31\<close> gives a product of up to 61 bits, more than the 53 bits a double
  holds, so the product is rounded (to nearest, ties to even) and the low bits the mask
  keeps depend on that rounding.  This one operation is modelled with its rounding.  The
  seed is an integer; \<open>to_double\<close> is the double nearest to an integer, \<open>None\<close> when that
  is an infinity, which the bitwise operator reads as 0.
\<close>

function excess_bits :: "nat \<Rightarrow> nat" where
  "excess_bits n = (if n < 2 ^ 53 then 0 else Suc (excess_bits (n div 2)))"
  by pat_completeness auto
termination
  by (relation "measure id") auto

declare excess_bits.simps [simp del]

definition to_double :: "int \<Rightarrow> int option" where
  "to_double n =
     (let a = nat \<bar>n\<bar>;
          e = excess_bits a;
          q = a div 2 ^ e;
          r = a mod 2 ^ e;
          q' = (if 2 ^ e < 2 * r \<or> (2 * r = 2 ^ e \<and> odd q) then q + 1 else q);
          m = int (q' * 2 ^ e)
      in if 2 ^ 1024 \<le> m then None else Some (sgn n * m))"

text \<open>\<^verbatim>\<open>SeededRandom.next\<close>: the generator's state is its seed; the result is the
  number returned and the new seed.\<close>

definition rng_next :: "int \<Rightarrow> real \<times> int" where
  "rng_next seed =
     (let seed' =
        (case to_double (seed * 1103515245) of
           None \<Rightarrow> 0
         | Some m \<Rightarrow>
             (case to_double (m + 12345) of
                None \<Rightarrow> 0
              | Some k \<Rightarrow> k AND 0x7fffffff))
      in (real_of_int seed' / 0x7fffffff, seed'))"


section \<open>Simulation engine\<close>

text \<open>
  The series and the three counters are local variables of \<^verbatim>\<open>runSimulation\<close> and,
  under the same names, fields of its result; \<open>SimCounters\<close> holds them once.
  \<open>SimState\<close> adds the other variables the loops assign, the five per-period
  variables included (the period loop resets them at the start of every period).
  \<^verbatim>\<open>nPeriods\<close> and \<^verbatim>\<open>nJobsPerPeriod\<close> are counts and are natural numbers here.
\<close>

record SimCounters =
  periods :: "nat list"
  fraudRates :: "jsnum list"
  detectionRates :: "jsnum list"
  auditRates :: "jsnum list"
  reputationHistory :: "real list"
  providerProfits :: "real list"
  clientLosses :: "real list"
  cumulativeWelfare :: "real list"
  totalJobs :: nat
  totalFrauds :: nat
  totalDetected :: nat

record SimulationResult = SimCounters +
  finalFraudRate :: jsnum
  finalDetectionRate :: jsnum
  socialWelfare :: real

record SimState = SimCounters +
  rng :: int
  avgReputation :: real
  cumProviderProfit :: real
  cumClientLoss :: real
  recentFraudRates :: "jsnum list"
  adaptiveAuditProb :: jsnum
  periodFrauds :: nat
  periodDetected :: nat
  periodProviderProfit :: real
  periodClientLoss :: real
  periodAudits :: nat

definition recentWindowSize :: nat where
  "recentWindowSize = 5"

definition learningRate :: real where
  "learningRate = 0.3"

text \<open>\<^verbatim>\<open>xs[i]\<close> on an array of numbers.  Past the end JavaScript reads
  \<^verbatim>\<open>undefined\<close>, which is not a number and is rendered as NaN.\<close>

definition js_nth :: "jsnum list \<Rightarrow> nat \<Rightarrow> jsnum" where
  "js_nth xs i = (if i < length xs then xs ! i else NaN)"

text \<open>The provider's decision (lines 219 to 241): whether it cheats, and the seed after
  the draws made.\<close>

definition provider_cheats ::
  "ProtocolParams \<Rightarrow> EquilibriumValues \<Rightarrow> bool \<Rightarrow> SimState \<Rightarrow> int \<Rightarrow> bool \<times> int" where
  "provider_cheats params eq isHonestType s seed =
     (if \<not> isHonestType then
        (let reputationFactor = exp (- 0.01 * (avgReputation s - 50));
             estimatedAuditProb = jmul (adaptiveAuditProb s) (Fin reputationFactor);
             U_honest = P_set params - c_H params;
             U_cheat = jsub (Fin (P_set params - c_F params))
                         (jmul estimatedAuditProb (Fin (P_set params + S_P params)));
             utilityDiff = jsub U_cheat (Fin U_honest)
         in if jgt utilityDiff (Fin 1) then
              (let (r, seed') = rng_next seed in (0.2 < r, seed'))
            else if jgt utilityDiff (Fin (- 1)) then
              (let (r, seed') = rng_next seed in (r < q_star eq, seed'))
            else (False, seed))
      else (False, seed))"

text \<open>The cheating branch (lines 243 to 271).\<close>

definition fraud_job :: "ProtocolParams \<Rightarrow> SimState \<Rightarrow> SimState" where
  "fraud_job params s0 =
     (let s1 = s0\<lparr> totalFrauds := totalFrauds s0 + 1, periodFrauds := periodFrauds s0 + 1 \<rparr>;
          effectiveAuditProb = jmax (Fin (v_min params)) (adaptiveAuditProb s1);
          (r1, seed1) = rng_next (rng s1);
          audits = jlt (Fin r1) effectiveAuditProb
      in if audits then
           (let s2 = s1\<lparr> rng := seed1, totalDetected := totalDetected s1 + 1,
                          periodDetected := periodDetected s1 + 1,
                          periodAudits := periodAudits s1 + 1 \<rparr>;
                (r2, seed2) = rng_next seed1
            in if r2 < p_w params then
                 (let reward = beta params * S_P params + lambda params * P_set params
                  in s2\<lparr> rng := seed2,
                         periodProviderProfit := periodProviderProfit s2 - S_P params,
                         periodClientLoss := periodClientLoss s2
                           - (reward - C_safe params - c_proof params - c_tx params),
                         avgReputation := max 0 (avgReputation s2 - 5) \<rparr>)
               else
                 s2\<lparr> rng := seed2,
                      periodClientLoss := periodClientLoss s2 + (C_safe params + B_C params) \<rparr>)
         else
           s1\<lparr> rng := seed1,
                periodProviderProfit := periodProviderProfit s1 + (P_set params - c_F params),
                periodClientLoss := periodClientLoss s1 + L params \<rparr>)"

text \<open>The honest branch (lines 272 to 276).\<close>

definition honest_job :: "ProtocolParams \<Rightarrow> SimState \<Rightarrow> SimState" where
  "honest_job params s =
     s\<lparr> periodProviderProfit := periodProviderProfit s + (P_set params - c_H params),
        avgReputation := min 100 (avgReputation s + 0.1) \<rparr>"

text \<open>One pass of the inner loop (lines 213 to 277).\<close>

definition job :: "ProtocolParams \<Rightarrow> EquilibriumValues \<Rightarrow> real \<Rightarrow> SimState \<Rightarrow> SimState" where
  "job params eq honestFraction s0 =
     (let s1 = s0\<lparr> totalJobs := totalJobs s0 + 1 \<rparr>;
          (r, seed1) = rng_next (rng s1);
          isHonestType = (r < honestFraction);
          (cheats, seed2) = provider_cheats params eq isHonestType s1 seed1;
          s2 = s1\<lparr> rng := seed2 \<rparr>
      in if cheats then fraud_job params s2 else honest_job params s2)"

text \<open>The inner loop with the five per-period variables set before it (lines 207 to
  277).\<close>

definition run_jobs ::
  "ProtocolParams \<Rightarrow> EquilibriumValues \<Rightarrow> nat \<Rightarrow> real \<Rightarrow> SimState \<Rightarrow> SimState" where
  "run_jobs params eq nJobsPerPeriod honestFraction s0 =
     fold (\<lambda>j. job params eq honestFraction) [0..<nJobsPerPeriod]
       (s0\<lparr> periodFrauds := 0, periodDetected := 0, periodProviderProfit := 0,
            periodClientLoss := 0, periodAudits := 0 \<rparr>)"

text \<open>The window of recent fraud rates (lines 281 to 284): \<^verbatim>\<open>push\<close>, then \<^verbatim>\<open>shift\<close> once
  the window holds more than \<open>recentWindowSize\<close> rates.\<close>

definition push_recent :: "jsnum list \<Rightarrow> jsnum \<Rightarrow> jsnum list" where
  "push_recent recent rate =
     (let pushed = recent @ [rate]
      in if recentWindowSize < length pushed then tl pushed else pushed)"

text \<open>The clients' adaptation (lines 286 to 302): the audit probability for the next
  period, from the window of recent fraud rates and the current probability.  The unused
  local \<^verbatim>\<open>Delta\<close> of line 289 is left out.\<close>

definition adapt_audit_prob ::
  "ProtocolParams \<Rightarrow> EquilibriumValues \<Rightarrow> jsnum list \<Rightarrow> jsnum \<Rightarrow> jsnum" where
  "adapt_audit_prob params eq recent current =
     (let observedFraudRate =
            jdivide (foldl jadd (Fin 0) recent) (Fin (real (length recent)));
          fraudRatio =
            (if 0 < q_star eq then jdivide observedFraudRate (Fin (q_star eq)) else Fin 1);
          targetAuditProb = jmul (v_star eq) (jsqrt fraudRatio);
          adapted =
            jadd current (jmul (Fin learningRate) (jsub targetAuditProb current))
      in jmax (Fin (v_min params)) (jmin (Fin 1.0) adapted))"

text \<open>One pass of the outer loop (lines 206 to 316), \<open>t\<close> its counter.\<close>

definition period ::
  "ProtocolParams \<Rightarrow> EquilibriumValues \<Rightarrow> nat \<Rightarrow> real \<Rightarrow> nat \<Rightarrow> SimState \<Rightarrow> SimState" where
  "period params eq nJobsPerPeriod honestFraction t s0 =
     (let s2 = run_jobs params eq nJobsPerPeriod honestFraction s0;
          periodFraudRate = jdiv (real (periodFrauds s2)) (real nJobsPerPeriod);
          recent = push_recent (recentFraudRates s2) periodFraudRate;
          adaptiveAuditProb' = adapt_audit_prob params eq recent (adaptiveAuditProb s2);
          cumProviderProfit' = cumProviderProfit s2 + periodProviderProfit s2;
          cumClientLoss' = cumClientLoss s2 + periodClientLoss s2
      in s2\<lparr> recentFraudRates := recent,
             adaptiveAuditProb := adaptiveAuditProb',
             cumProviderProfit := cumProviderProfit',
             cumClientLoss := cumClientLoss',
             periods := periods s2 @ [t],
             fraudRates := fraudRates s2 @ [periodFraudRate],
             detectionRates := detectionRates s2 @
               [if 0 < periodFrauds s2
                then jdiv (real (periodDetected s2)) (real (periodFrauds s2))
                else if 0 < t then js_nth (detectionRates s2) (t - 1) else v_star eq],
             auditRates := auditRates s2 @ [adaptiveAuditProb'],
             reputationHistory := reputationHistory s2 @ [avgReputation s2],
             providerProfits := providerProfits s2 @ [cumProviderProfit'],
             clientLosses := clientLosses s2 @ [cumClientLoss'],
             cumulativeWelfare := cumulativeWelfare s2 @ [cumProviderProfit' - cumClientLoss'] \<rparr>)"

text \<open>The variables of \<^verbatim>\<open>runSimulation\<close> before the first period (lines 182 to 204).\<close>

definition init_state :: "EquilibriumValues \<Rightarrow> int \<Rightarrow> SimState" where
  "init_state eq seed =
     \<lparr> periods = [], fraudRates = [], detectionRates = [], auditRates = [],
       reputationHistory = [], providerProfits = [], clientLosses = [],
       cumulativeWelfare = [], totalJobs = 0, totalFrauds = 0, totalDetected = 0,
       rng = seed, avgReputation = 50, cumProviderProfit = 0, cumClientLoss = 0,
       recentFraudRates = [], adaptiveAuditProb = v_star eq,
       periodFrauds = 0, periodDetected = 0, periodProviderProfit = 0,
       periodClientLoss = 0, periodAudits = 0 \<rparr>"

definition runSimulation ::
  "ProtocolParams \<Rightarrow> nat \<Rightarrow> nat \<Rightarrow> real \<Rightarrow> int \<Rightarrow> SimulationResult" where
  "runSimulation params nPeriods nJobsPerPeriod honestFraction seed =
     (let eq = computeEquilibrium params;
          s = fold (period params eq nJobsPerPeriod honestFraction) [0..<nPeriods]
                (init_state eq seed)
      in \<lparr> periods = periods s, fraudRates = fraudRates s,
           detectionRates = detectionRates s, auditRates = auditRates s,
           reputationHistory = reputationHistory s, providerProfits = providerProfits s,
           clientLosses = clientLosses s, cumulativeWelfare = cumulativeWelfare s,
           totalJobs = totalJobs s, totalFrauds = totalFrauds s,
           totalDetected = totalDetected s,
           finalFraudRate = jdiv (real (totalFrauds s)) (real (totalJobs s)),
           finalDetectionRate =
             (if 0 < totalFrauds s
              then jdiv (real (totalDetected s)) (real (totalFrauds s))
              else v_star eq),
           socialWelfare = cumProviderProfit s - cumClientLoss s \<rparr>)"


section \<open>The generator as an object\<close>

text \<open>
  The definitions above pass the generator of a run along by value.  To say that a run
  does not depend on what earlier runs have left behind, the generator is modelled here
  the way the code has it: \<^verbatim>\<open>SeededRandom\<close> objects live in a store that outlasts a call,
  an object being its \<^verbatim>\<open>seed\<close> field and its address an index of the store;
  \<^verbatim>\<open>new SeededRandom(seed)\<close> allocates an object and \<^verbatim>\<open>next()\<close> assigns to the
  \<^verbatim>\<open>seed\<close> field of the object it is called on.  The local variable \<^verbatim>\<open>rng\<close> of
  \<^verbatim>\<open>runSimulation\<close> is a reference and is the argument \<open>gen\<close> below; the field \<open>rng\<close> of
  \<open>SimState\<close> is neither read nor written by these functions.
\<close>

type_synonym rng_store = "int list"

text \<open>The constructor (lines 162 to 164) and \<^verbatim>\<open>next\<close> (lines 166 to 169).\<close>

definition SeededRandom_new :: "int \<Rightarrow> rng_store \<Rightarrow> nat \<times> rng_store" where
  "SeededRandom_new seed w = (length w, w @ [seed])"

definition SeededRandom_next :: "nat \<Rightarrow> rng_store \<Rightarrow> real \<times> rng_store" where
  "SeededRandom_next this w =
     (let (r, seed') = rng_next (w ! this) in (r, w[this := seed']))"

text \<open>The provider's decision (lines 219 to 241).\<close>

definition provider_cheats_st ::
  "ProtocolParams \<Rightarrow> EquilibriumValues \<Rightarrow> bool \<Rightarrow> SimState \<Rightarrow> nat \<Rightarrow> rng_store
     \<Rightarrow> bool \<times> rng_store" where
  "provider_cheats_st params eq isHonestType s gen w =
     (if \<not> isHonestType then
        (let reputationFactor = exp (- 0.01 * (avgReputation s - 50));
             estimatedAuditProb = jmul (adaptiveAuditProb s) (Fin reputationFactor);
             U_honest = P_set params - c_H params;
             U_cheat = jsub (Fin (P_set params - c_F params))
                         (jmul estimatedAuditProb (Fin (P_set params + S_P params)));
             utilityDiff = jsub U_cheat (Fin U_honest)
         in if jgt utilityDiff (Fin 1) then
              (let (r, w') = SeededRandom_next gen w in (0.2 < r, w'))
            else if jgt utilityDiff (Fin (- 1)) then
              (let (r, w') = SeededRandom_next gen w in (r < q_star eq, w'))
            else (False, w))
      else (False, w))"

text \<open>The cheating branch (lines 243 to 271).\<close>

definition fraud_job_st ::
  "ProtocolParams \<Rightarrow> nat \<Rightarrow> SimState \<times> rng_store \<Rightarrow> SimState \<times> rng_store" where
  "fraud_job_st params gen state =
     (let (s0, w0) = state;
          s1 = s0\<lparr> totalFrauds := totalFrauds s0 + 1, periodFrauds := periodFrauds s0 + 1 \<rparr>;
          effectiveAuditProb = jmax (Fin (v_min params)) (adaptiveAuditProb s1);
          (r1, w1) = SeededRandom_next gen w0;
          audits = jlt (Fin r1) effectiveAuditProb
      in if audits then
           (let s2 = s1\<lparr> totalDetected := totalDetected s1 + 1,
                          periodDetected := periodDetected s1 + 1,
                          periodAudits := periodAudits s1 + 1 \<rparr>;
                (r2, w2) = SeededRandom_next gen w1
            in if r2 < p_w params then
                 (let reward = beta params * S_P params + lambda params * P_set params
                  in (s2\<lparr> periodProviderProfit := periodProviderProfit s2 - S_P params,
                          periodClientLoss := periodClientLoss s2
                            - (reward - C_safe params - c_proof params - c_tx params),
                          avgReputation := max 0 (avgReputation s2 - 5) \<rparr>, w2))
               else
                 (s2\<lparr> periodClientLoss := periodClientLoss s2 + (C_safe params + B_C params) \<rparr>,
                  w2))
         else
           (s1\<lparr> periodProviderProfit := periodProviderProfit s1 + (P_set params - c_F params),
                 periodClientLoss := periodClientLoss s1 + L params \<rparr>, w1))"

text \<open>One pass of the inner loop (lines 213 to 277), and the inner loop (lines 207 to
  277).\<close>

definition job_st ::
  "ProtocolParams \<Rightarrow> EquilibriumValues \<Rightarrow> real \<Rightarrow> nat \<Rightarrow> SimState \<times> rng_store
     \<Rightarrow> SimState \<times> rng_store" where
  "job_st params eq honestFraction gen state =
     (let (s0, w0) = state;
          s1 = s0\<lparr> totalJobs := totalJobs s0 + 1 \<rparr>;
          (r, w1) = SeededRandom_next gen w0;
          isHonestType = (r < honestFraction);
          (cheats, w2) = provider_cheats_st params eq isHonestType s1 gen w1
      in if cheats then fraud_job_st params gen (s1, w2) else (honest_job params s1, w2))"

definition run_jobs_st ::
  "ProtocolParams \<Rightarrow> EquilibriumValues \<Rightarrow> nat \<Rightarrow> real \<Rightarrow> nat \<Rightarrow> SimState \<times> rng_store
     \<Rightarrow> SimState \<times> rng_store" where
  "run_jobs_st params eq nJobsPerPeriod honestFraction gen state =
     (let (s0, w0) = state
      in fold (\<lambda>j. job_st params eq honestFraction gen) [0..<nJobsPerPeriod]
           (s0\<lparr> periodFrauds := 0, periodDetected := 0, periodProviderProfit := 0,
                periodClientLoss := 0, periodAudits := 0 \<rparr>, w0))"

text \<open>One pass of the outer loop (lines 206 to 316).\<close>

definition period_st ::
  "ProtocolParams \<Rightarrow> EquilibriumValues \<Rightarrow> nat \<Rightarrow> real \<Rightarrow> nat \<Rightarrow> nat \<Rightarrow> SimState \<times> rng_store
     \<Rightarrow> SimState \<times> rng_store" where
  "period_st params eq nJobsPerPeriod honestFraction gen t state =
     (let (s2, w2) = run_jobs_st params eq nJobsPerPeriod honestFraction gen state;
          periodFraudRate = jdiv (real (periodFrauds s2)) (real nJobsPerPeriod);
          recent = push_recent (recentFraudRates s2) periodFraudRate;
          adaptiveAuditProb' = adapt_audit_prob params eq recent (adaptiveAuditProb s2);
          cumProviderProfit' = cumProviderProfit s2 + periodProviderProfit s2;
          cumClientLoss' = cumClientLoss s2 + periodClientLoss s2
      in (s2\<lparr> recentFraudRates := recent,
              adaptiveAuditProb := adaptiveAuditProb',
              cumProviderProfit := cumProviderProfit',
              cumClientLoss := cumClientLoss',
              periods := periods s2 @ [t],
              fraudRates := fraudRates s2 @ [periodFraudRate],
              detectionRates := detectionRates s2 @
                [if 0 < periodFrauds s2
                 then jdiv (real (periodDetected s2)) (real (periodFrauds s2))
                 else if 0 < t then js_nth (detectionRates s2) (t - 1) else v_star eq],
              auditRates := auditRates s2 @ [adaptiveAuditProb'],
              reputationHistory := reputationHistory s2 @ [avgReputation s2],
              providerProfits := providerProfits s2 @ [cumProviderProfit'],
              clientLosses := clientLosses s2 @ [cumClientLoss'],
              cumulativeWelfare :=
                cumulativeWelfare s2 @ [cumProviderProfit' - cumClientLoss'] \<rparr>, w2))"

text \<open>A call of \<^verbatim>\<open>runSimulation\<close> in a store \<open>w\<close>: its result, and the store it leaves.\<close>

definition runSimulation_st ::
  "rng_store \<Rightarrow> ProtocolParams \<Rightarrow> nat \<Rightarrow> nat \<Rightarrow> real \<Rightarrow> int \<Rightarrow> SimulationResult \<times> rng_store" where
  "runSimulation_st w params nPeriods nJobsPerPeriod honestFraction seed =
     (let (gen, w0) = SeededRandom_new seed w;
          eq = computeEquilibrium params;
          (s, w') = fold (period_st params eq nJobsPerPeriod honestFraction gen) [0..<nPeriods]
                      (init_state eq seed, w0)
      in (\<lparr> periods = periods s, fraudRates = fraudRates s,
            detectionRates = detectionRates s, auditRates = auditRates s,
            reputationHistory = reputationHistory s, providerProfits = providerProfits s,
            clientLosses = clientLosses s, cumulativeWelfare = cumulativeWelfare s,
            totalJobs = totalJobs s, totalFrauds = totalFrauds s,
            totalDetected = totalDetected s,
            finalFraudRate = jdiv (real (totalFrauds s)) (real (totalJobs s)),
            finalDetectionRate =
              (if 0 < totalFrauds s
               then jdiv (real (totalDetected s)) (real (totalFrauds s))
               else v_star eq),
            socialWelfare = cumProviderProfit s - cumClientLoss s \<rparr>, w'))"


section \<open>Sensitivity analysis\<close>

text \<open>\<^verbatim>\<open>keyof ProtocolParams\<close>, and the object \<^verbatim>\<open>{ ...baseParams, [paramName]: value }\<close>.\<close>

datatype ParamName =
  Key_S_P | Key_P_set | Key_c_H | Key_c_F | Key_C_safe | Key_c_proof | Key_c_tx
| Key_beta | Key_lambda | Key_p_w | Key_B_C | Key_L | Key_v_min

fun with_param :: "ProtocolParams \<Rightarrow> ParamName \<Rightarrow> real \<Rightarrow> ProtocolParams" where
  "with_param p Key_S_P v = p\<lparr> S_P := v \<rparr>"
| "with_param p Key_P_set v = p\<lparr> P_set := v \<rparr>"
| "with_param p Key_c_H v = p\<lparr> c_H := v \<rparr>"
| "with_param p Key_c_F v = p\<lparr> c_F := v \<rparr>"
| "with_param p Key_C_safe v = p\<lparr> C_safe := v \<rparr>"
| "with_param p Key_c_proof v = p\<lparr> c_proof := v \<rparr>"
| "with_param p Key_c_tx v = p\<lparr> c_tx := v \<rparr>"
| "with_param p Key_beta v = p\<lparr> beta := v \<rparr>"
| "with_param p Key_lambda v = p\<lparr> lambda := v \<rparr>"
| "with_param p Key_p_w v = p\<lparr> p_w := v \<rparr>"
| "with_param p Key_B_C v = p\<lparr> B_C := v \<rparr>"
| "with_param p Key_L v = p\<lparr> L := v \<rparr>"
| "with_param p Key_v_min v = p\<lparr> v_min := v \<rparr>"

text \<open>The specification's words for the parameters of one step of the sweep, "baseParams
  with the named field replaced by the value", written field by field; it is compared
  with \<open>with_param\<close> below.\<close>

definition field_replaced :: "ProtocolParams \<Rightarrow> ParamName \<Rightarrow> real \<Rightarrow> ProtocolParams" where
  "field_replaced base name v =
     \<lparr> S_P = (if name = Key_S_P then v else S_P base),
       P_set = (if name = Key_P_set then v else P_set base),
       c_H = (if name = Key_c_H then v else c_H base),
       c_F = (if name = Key_c_F then v else c_F base),
       C_safe = (if name = Key_C_safe then v else C_safe base),
       c_proof = (if name = Key_c_proof then v else c_proof base),
       c_tx = (if name = Key_c_tx then v else c_tx base),
       beta = (if name = Key_beta then v else beta base),
       lambda = (if name = Key_lambda then v else lambda base),
       p_w = (if name = Key_p_w then v else p_w base),
       B_C = (if name = Key_B_C then v else B_C base),
       L = (if name = Key_L then v else L base),
       v_min = (if name = Key_v_min then v else v_min base) \<rparr>"

text \<open>
  The result of \<^verbatim>\<open>sensitivityAnalysis\<close>; its fields carry the suffix \<open>_s\<close>, the names
  of the four series being fields of \<open>EquilibriumValues\<close> already.

  The caller's \<^verbatim>\<open>baseParams\<close> is an object the function receives by reference.  To say
  what happens to it, parameter objects live in a store, a list indexed by address; the
  spread expression allocates a new object at the end of the store.
\<close>

record SensitivityResult =
  values_s :: "real list"
  q_star_s :: "real list"
  v_star_s :: "jsnum list"
  Delta_s :: "real list"
  S_P_min_s :: "jsnum list"

type_synonym store = "ProtocolParams list"

definition alloc :: "ProtocolParams \<Rightarrow> store \<Rightarrow> nat \<times> store" where
  "alloc obj h = (length h, h @ [obj])"

text \<open>One pass of the loop (lines 352 to 360).\<close>

definition sensitivity_step ::
  "nat \<Rightarrow> ParamName \<Rightarrow> real \<Rightarrow> SensitivityResult \<times> store \<Rightarrow> SensitivityResult \<times> store" where
  "sensitivity_step baseParams paramName v state =
     (let (results, h) = state;
          (params, h') = alloc (with_param (h ! baseParams) paramName v) h;
          eq = computeEquilibrium (h' ! params)
      in (results\<lparr> q_star_s := q_star_s results @ [q_star eq],
                    v_star_s := v_star_s results @ [v_star eq],
                    Delta_s := Delta_s results @ [Delta eq],
                    S_P_min_s := S_P_min_s results @ [S_P_min eq] \<rparr>, h'))"

definition sensitivityAnalysis ::
  "store \<Rightarrow> nat \<Rightarrow> ParamName \<Rightarrow> real list \<Rightarrow> SensitivityResult \<times> store" where
  "sensitivityAnalysis h baseParams paramName vals =
     fold (sensitivity_step baseParams paramName) vals
       (\<lparr> values_s = vals, q_star_s = [], v_star_s = [], Delta_s = [], S_P_min_s = [] \<rparr>, h)"


section \<open>Attack evaluator\<close>

datatype AttackType = reputation_farming | no_stake_floor | sybil | collusion | censorship

datatype Severity = low | medium | high | critical

record AttackResult =
  name :: string
  description :: string
  baselineFraudRate :: jsnum
  attackFraudRate :: jsnum
  fraudRateChange :: jsnum
  welfareLoss :: real
  attackerProfit :: real
  severity :: Severity

text \<open>The \<^verbatim>\<open>switch\<close> of \<^verbatim>\<open>simulateAttack\<close> (lines 396 to 428): the attack's parameters, its
  honest fraction, its name and its description.\<close>

fun attack_case ::
  "ProtocolParams \<Rightarrow> AttackType \<Rightarrow> ProtocolParams \<times> real \<times> string \<times> string" where
  "attack_case params reputation_farming =
     (params, 0.4, ''Reputation Farming'',
      ''Attacker builds reputation with honest behavior, then exploits reduced auditing'')"
| "attack_case params no_stake_floor =
     (params\<lparr> S_P := 5 \<rparr>, 0.6, ''No Stake Floor'',
      ''Minimal stake when floor not enforced, reducing slashing penalty'')"
| "attack_case params sybil =
     (params, 0.3, ''Sybil Attack'',
      ''Multiple identities spread risk and dilute reputation penalties'')"
| "attack_case params collusion =
     (params\<lparr> C_safe := C_safe params * 2 \<rparr>, 0.4, ''Collusion'',
      ''Provider-client coordination to avoid auditing'')"
| "attack_case params censorship =
     (params\<lparr> p_w := p_w params * 0.7 \<rparr>, 0.6, ''Censorship Attack'',
      ''Blocking dispute transactions reduces enforcement probability'')"

definition simulateAttack :: "ProtocolParams \<Rightarrow> AttackType \<Rightarrow> nat \<Rightarrow> AttackResult" where
  "simulateAttack params attackType nPeriods =
     (let baselineResult = runSimulation params nPeriods 20 0.6 42;
          (attackParams, attackHonestFraction, name, description) =
            attack_case params attackType;
          attackResult = runSimulation attackParams nPeriods 20 attackHonestFraction 43;
          fraudRateChange =
            jsub (finalFraudRate attackResult) (finalFraudRate baselineResult);
          welfareLoss = socialWelfare baselineResult - socialWelfare attackResult;
          severity =
            (if 5000 < welfareLoss then critical
             else if 2000 < welfareLoss then high
             else if 500 < welfareLoss then medium
             else low)
      in \<lparr> name = name, description = description,
           baselineFraudRate = finalFraudRate baselineResult,
           attackFraudRate = finalFraudRate attackResult,
           fraudRateChange = fraudRateChange,
           welfareLoss = welfareLoss,
           attackerProfit = welfareLoss * 0.4,
           severity = severity \<rparr>)"


section \<open>Parameter sets used below\<close>

text \<open>The defaults with stake and payment lowered to 1: the honest provider's extra cost
  of 4.5 exceeds what a cheat puts at risk.\<close>

definition low_stake_params :: ProtocolParams where
  "low_stake_params = DEFAULT_PARAMS\<lparr> S_P := 1, P_set := 1 \<rparr>"

text \<open>The defaults with neither stake nor payment.\<close>

definition no_stake_params :: ProtocolParams where
  "no_stake_params = DEFAULT_PARAMS\<lparr> S_P := 0, P_set := 0 \<rparr>"

text \<open>Neither stake nor payment, and cheating dearer than honest execution.\<close>

definition dear_cheat_params :: ProtocolParams where
  "dear_cheat_params = DEFAULT_PARAMS\<lparr> S_P := 0, P_set := 0, c_H := 0.5, c_F := 5 \<rparr>"


section \<open>The numbers: auxiliary facts\<close>

lemma jdiv_Fin: "b \<noteq> 0 \<Longrightarrow> jdiv a b = Fin (a / b)"
  by (simp add: jdiv_def jdiv_by_def)

lemma jge_same: "jge x x = (x \<noteq> NaN)"
  by (cases x) simp_all





section \<open>The equilibrium solver: claims\<close>

lemma computeTheta_NaN:
  "(computeTheta p = NaN) = (c_H p = c_F p \<and> P_set p + S_P p = 0)"
  by (simp add: computeTheta_def jdiv_def jdiv_by_def)

lemma computeVStar_Fin:
  "P_set p + S_P p \<noteq> 0 \<Longrightarrow> computeVStar p = Fin ((c_H p - c_F p) / (P_set p + S_P p))"
  by (simp add: computeVStar_def computeTheta_def jdiv_Fin)

lemma v_star_computeEquilibrium: "v_star (computeEquilibrium p) = computeVStar p"
  by (simp add: computeEquilibrium_def Let_def)

text \<open>
  Claim C5.  With the default parameters \<open>computeDelta\<close> returns 91.75, \<open>computeTheta\<close>
  returns 0.03, which is 4.5 / 150, and \<open>computeQStar\<close> returns 8 / 141.75.
\<close>

theorem default_scenario:
  "computeDelta DEFAULT_PARAMS = 91.75 \<and>
   computeTheta DEFAULT_PARAMS = Fin 0.03 \<and>
   computeTheta DEFAULT_PARAMS = Fin (4.5 / 150) \<and>
   computeQStar DEFAULT_PARAMS = 8 / 141.75"
  by (simp add: computeDelta_def computeTheta_def computeQStar_def DEFAULT_PARAMS_def jdiv_Fin)

text \<open>
  Claim C10.  The belief threshold \<open>mu_star\<close> that \<open>computeEquilibrium\<close> returns is its
  \<open>q_star\<close>, for every parameter record.
\<close>

theorem belief_threshold_is_q_star:
  "mu_star (computeEquilibrium params) = q_star (computeEquilibrium params)"
  by (simp add: computeEquilibrium_def Let_def)

text \<open>
  Claim C1 says that the two flags of \<open>computeEquilibrium\<close> are equal for every parameter
  record.  They differ at \<open>low_stake_params\<close>: the stake of 1 is below the minimum viable
  stake (10.3 / 0.475), while \<open>v_star\<close> and \<open>theta\<close> are the same number 2.25.
\<close>

theorem viability_flags_counterexample:
  "isICsatisfied (computeEquilibrium low_stake_params) \<and>
   \<not> isEnforcementViable (computeEquilibrium low_stake_params)"
  by (simp add: computeEquilibrium_def Let_def computeVStar_def computeTheta_def
      computeMinViableStake_def low_stake_params_def DEFAULT_PARAMS_def jdiv_def jdiv_by_def
      mul_negzero_def)

text \<open>
  Claim C1, amended.  \<open>isICsatisfied\<close> compares \<open>v_star\<close> with \<open>theta\<close>, which are the same
  value: it is true for every parameter record but those where that value is NaN (equal
  costs over a zero denominator).  \<open>isEnforcementViable\<close> is the comparison of the stake
  with the minimum viable stake.  So, where the denominator of \<open>theta\<close> is not zero, the
  two flags are equal exactly when the stake reaches the minimum viable stake.
\<close>

theorem viability_flags:
  "isICsatisfied (computeEquilibrium params) =
     (\<not> (c_H params = c_F params \<and> P_set params + S_P params = 0)) \<and>
   isEnforcementViable (computeEquilibrium params) =
     jge (Fin (S_P params)) (computeMinViableStake params) \<and>
   (P_set params + S_P params \<noteq> 0 \<longrightarrow>
      (isEnforcementViable (computeEquilibrium params) = isICsatisfied (computeEquilibrium params))
        = jge (Fin (S_P params)) (computeMinViableStake params))"
  by (simp add: computeEquilibrium_def Let_def computeVStar_def jge_same computeTheta_NaN)

text \<open>The amended claim at the default parameters.\<close>

theorem viability_flags_witness:
  "P_set DEFAULT_PARAMS + S_P DEFAULT_PARAMS \<noteq> 0 \<and>
   (isEnforcementViable (computeEquilibrium DEFAULT_PARAMS)
      = isICsatisfied (computeEquilibrium DEFAULT_PARAMS))
     = jge (Fin (S_P DEFAULT_PARAMS)) (computeMinViableStake DEFAULT_PARAMS)"
  using viability_flags[of DEFAULT_PARAMS] by (simp add: DEFAULT_PARAMS_def)




text \<open>
  Claim C3 says that with \<open>P_set + S_P = 0\<close> the function \<open>computeTheta\<close> returns the
  positive infinity or signals a domain error.  At \<open>dear_cheat_params\<close> the dividend
  \<open>c_H - c_F\<close> is negative and the result is the negative infinity.
\<close>

theorem theta_zero_denominator_counterexample:
  "P_set dear_cheat_params + S_P dear_cheat_params = 0 \<and>
   computeTheta dear_cheat_params = NInf"
  by (simp add: computeTheta_def jdiv_def jdiv_by_def dear_cheat_params_def DEFAULT_PARAMS_def)

text \<open>
  Claim C3, amended.  With \<open>P_set + S_P = 0\<close> the function \<open>computeTheta\<close> returns a value
  (it raises nothing): the positive infinity when \<open>c_H > c_F\<close>, the negative infinity
  when \<open>c_H < c_F\<close>, and NaN when the two costs are equal.
\<close>

theorem theta_zero_denominator:
  assumes "P_set params + S_P params = 0"
  shows "computeTheta params =
           (if c_F params < c_H params then PInf
            else if c_H params < c_F params then NInf
            else NaN)"
  using assms by (auto simp add: computeTheta_def jdiv_def jdiv_by_def)

text \<open>The amended claim at \<open>no_stake_params\<close>, where the result is the positive
  infinity.\<close>

theorem theta_zero_denominator_witness:
  "P_set no_stake_params + S_P no_stake_params = 0 \<and> computeTheta no_stake_params = PInf"
proof -
  have h: "P_set no_stake_params + S_P no_stake_params = 0"
    by (simp add: no_stake_params_def DEFAULT_PARAMS_def)
  from theta_zero_denominator[OF h] h show ?thesis
    by (simp add: no_stake_params_def DEFAULT_PARAMS_def)
qed


section \<open>The simulation: what one job and one period change\<close>

text \<open>A job leaves the series, the cumulative sums, the window and the audit
  probability alone.\<close>

lemma fraud_job_frame:
  "periods (fraud_job p s) = periods s \<and> fraudRates (fraud_job p s) = fraudRates s
   \<and> detectionRates (fraud_job p s) = detectionRates s \<and> auditRates (fraud_job p s) = auditRates s
   \<and> reputationHistory (fraud_job p s) = reputationHistory s
   \<and> providerProfits (fraud_job p s) = providerProfits s
   \<and> clientLosses (fraud_job p s) = clientLosses s
   \<and> cumulativeWelfare (fraud_job p s) = cumulativeWelfare s
   \<and> cumProviderProfit (fraud_job p s) = cumProviderProfit s
   \<and> cumClientLoss (fraud_job p s) = cumClientLoss s
   \<and> recentFraudRates (fraud_job p s) = recentFraudRates s
   \<and> adaptiveAuditProb (fraud_job p s) = adaptiveAuditProb s"
  by (simp add: fraud_job_def Let_def split: prod.splits)

lemma job_frame:
  "periods (job p e h s) = periods s \<and> fraudRates (job p e h s) = fraudRates s
   \<and> detectionRates (job p e h s) = detectionRates s \<and> auditRates (job p e h s) = auditRates s
   \<and> reputationHistory (job p e h s) = reputationHistory s
   \<and> providerProfits (job p e h s) = providerProfits s
   \<and> clientLosses (job p e h s) = clientLosses s
   \<and> cumulativeWelfare (job p e h s) = cumulativeWelfare s
   \<and> cumProviderProfit (job p e h s) = cumProviderProfit s
   \<and> cumClientLoss (job p e h s) = cumClientLoss s
   \<and> recentFraudRates (job p e h s) = recentFraudRates s
   \<and> adaptiveAuditProb (job p e h s) = adaptiveAuditProb s"
  by (simp add: job_def Let_def fraud_job_frame honest_job_def split: prod.splits)

lemma jobs_frame:
  "periods (fold (\<lambda>j. job p e h) xs s) = periods s \<and>
   fraudRates (fold (\<lambda>j. job p e h) xs s) = fraudRates s \<and>
   detectionRates (fold (\<lambda>j. job p e h) xs s) = detectionRates s \<and>
   auditRates (fold (\<lambda>j. job p e h) xs s) = auditRates s \<and>
   reputationHistory (fold (\<lambda>j. job p e h) xs s) = reputationHistory s \<and>
   providerProfits (fold (\<lambda>j. job p e h) xs s) = providerProfits s \<and>
   clientLosses (fold (\<lambda>j. job p e h) xs s) = clientLosses s \<and>
   cumulativeWelfare (fold (\<lambda>j. job p e h) xs s) = cumulativeWelfare s \<and>
   cumProviderProfit (fold (\<lambda>j. job p e h) xs s) = cumProviderProfit s \<and>
   cumClientLoss (fold (\<lambda>j. job p e h) xs s) = cumClientLoss s \<and>
   recentFraudRates (fold (\<lambda>j. job p e h) xs s) = recentFraudRates s \<and>
   adaptiveAuditProb (fold (\<lambda>j. job p e h) xs s) = adaptiveAuditProb s"
  by (induction xs arbitrary: s) (simp_all add: job_frame)

lemma run_jobs_frame:
  "periods (run_jobs p e n h s) = periods s \<and>
   fraudRates (run_jobs p e n h s) = fraudRates s \<and>
   detectionRates (run_jobs p e n h s) = detectionRates s \<and>
   auditRates (run_jobs p e n h s) = auditRates s \<and>
   reputationHistory (run_jobs p e n h s) = reputationHistory s \<and>
   providerProfits (run_jobs p e n h s) = providerProfits s \<and>
   clientLosses (run_jobs p e n h s) = clientLosses s \<and>
   cumulativeWelfare (run_jobs p e n h s) = cumulativeWelfare s \<and>
   cumProviderProfit (run_jobs p e n h s) = cumProviderProfit s \<and>
   cumClientLoss (run_jobs p e n h s) = cumClientLoss s \<and>
   recentFraudRates (run_jobs p e n h s) = recentFraudRates s \<and>
   adaptiveAuditProb (run_jobs p e n h s) = adaptiveAuditProb s"
  by (simp add: run_jobs_def jobs_frame)





text \<open>What a period appends to the series.\<close>

lemma period_money:
  "providerProfits (period p e n h t s) = providerProfits s @ [cumProviderProfit (period p e n h t s)] \<and>
   clientLosses (period p e n h t s) = clientLosses s @ [cumClientLoss (period p e n h t s)] \<and>
   cumulativeWelfare (period p e n h t s) =
     cumulativeWelfare s @ [cumProviderProfit (period p e n h t s) - cumClientLoss (period p e n h t s)]"
  by (simp add: period_def Let_def run_jobs_frame)

lemma period_rates:
  "fraudRates (period p e n h t s) =
     fraudRates s @ [jdiv (real (periodFrauds (run_jobs p e n h s))) (real n)] \<and>
   auditRates (period p e n h t s) = auditRates s @ [adaptiveAuditProb (period p e n h t s)] \<and>
   detectionRates (period p e n h t s) = detectionRates s @
     [if 0 < periodFrauds (run_jobs p e n h s)
      then jdiv (real (periodDetected (run_jobs p e n h s))) (real (periodFrauds (run_jobs p e n h s)))
      else if 0 < t then js_nth (detectionRates s) (t - 1) else v_star e] \<and>
   recentFraudRates (period p e n h t s) =
     push_recent (recentFraudRates s) (jdiv (real (periodFrauds (run_jobs p e n h s))) (real n)) \<and>
   adaptiveAuditProb (period p e n h t s) =
     adapt_audit_prob p e (recentFraudRates (period p e n h t s)) (adaptiveAuditProb s)"
  by (simp add: period_def Let_def run_jobs_frame)

lemma runSimulation_fields:
  "providerProfits (runSimulation p np nj h sd) =
     providerProfits (fold (period p (computeEquilibrium p) nj h) [0..<np] (init_state (computeEquilibrium p) sd)) \<and>
   clientLosses (runSimulation p np nj h sd) =
     clientLosses (fold (period p (computeEquilibrium p) nj h) [0..<np] (init_state (computeEquilibrium p) sd)) \<and>
   cumulativeWelfare (runSimulation p np nj h sd) =
     cumulativeWelfare (fold (period p (computeEquilibrium p) nj h) [0..<np] (init_state (computeEquilibrium p) sd)) \<and>
   fraudRates (runSimulation p np nj h sd) =
     fraudRates (fold (period p (computeEquilibrium p) nj h) [0..<np] (init_state (computeEquilibrium p) sd)) \<and>
   detectionRates (runSimulation p np nj h sd) =
     detectionRates (fold (period p (computeEquilibrium p) nj h) [0..<np] (init_state (computeEquilibrium p) sd)) \<and>
   auditRates (runSimulation p np nj h sd) =
     auditRates (fold (period p (computeEquilibrium p) nj h) [0..<np] (init_state (computeEquilibrium p) sd)) \<and>
   socialWelfare (runSimulation p np nj h sd) =
     cumProviderProfit (fold (period p (computeEquilibrium p) nj h) [0..<np] (init_state (computeEquilibrium p) sd))
     - cumClientLoss (fold (period p (computeEquilibrium p) nj h) [0..<np] (init_state (computeEquilibrium p) sd))"
  by (simp add: runSimulation_def Let_def)


section \<open>The simulation: welfare\<close>

text \<open>Over any run of periods the three money series keep the same length, the welfare
  series is the difference of the other two, and its last entry is the difference of the
  two cumulative sums.\<close>

lemma periods_money:
  "length (providerProfits s) = length (clientLosses s) \<Longrightarrow>
   cumulativeWelfare s = map (\<lambda>(a, b). a - b) (zip (providerProfits s) (clientLosses s)) \<Longrightarrow>
   s' = fold (period p e n h) ts s \<Longrightarrow>
   length (providerProfits s') = length (providerProfits s) + length ts \<and>
   length (clientLosses s') = length (providerProfits s') \<and>
   cumulativeWelfare s' = map (\<lambda>(a, b). a - b) (zip (providerProfits s') (clientLosses s')) \<and>
   (ts \<noteq> [] \<longrightarrow> last (cumulativeWelfare s') = cumProviderProfit s' - cumClientLoss s')"
proof (induction ts arbitrary: s s' rule: rev_induct)
  case Nil
  then show ?case by simp
next
  case (snoc t ts)
  let ?m = "fold (period p e n h) ts s"
  have s': "s' = period p e n h t ?m" using snoc.prems(3) by simp
  from snoc.IH[OF snoc.prems(1) snoc.prems(2) refl]
  have l1: "length (providerProfits ?m) = length (providerProfits s) + length ts"
    and l2: "length (clientLosses ?m) = length (providerProfits ?m)"
    and w: "cumulativeWelfare ?m = map (\<lambda>(a, b). a - b) (zip (providerProfits ?m) (clientLosses ?m))"
    by simp_all
  from period_money[of p e n h t ?m]
  have pp: "providerProfits s' = providerProfits ?m @ [cumProviderProfit s']"
    and cl: "clientLosses s' = clientLosses ?m @ [cumClientLoss s']"
    and cw: "cumulativeWelfare s' = cumulativeWelfare ?m @ [cumProviderProfit s' - cumClientLoss s']"
    unfolding s' by simp_all
  show ?case using l1 l2 w by (simp add: pp cl cw)
qed

text \<open>
  Claim C8.  For every run of \<open>runSimulation\<close> with at least one period, the three money
  series have one entry per period, \<open>cumulativeWelfare[i]\<close> is
  \<open>providerProfits[i] - clientLosses[i]\<close> at every period index \<open>i\<close>, and \<open>socialWelfare\<close>
  is the last entry of \<open>cumulativeWelfare\<close>.
\<close>

theorem welfare_is_profit_minus_loss:
  assumes "1 \<le> nPeriods"
    and "r = runSimulation params nPeriods nJobsPerPeriod honestFraction seed"
  shows "length (cumulativeWelfare r) = nPeriods \<and>
         length (providerProfits r) = nPeriods \<and>
         length (clientLosses r) = nPeriods \<and>
         (\<forall>i<nPeriods. cumulativeWelfare r ! i = providerProfits r ! i - clientLosses r ! i) \<and>
         socialWelfare r = last (cumulativeWelfare r)"
proof -
  let ?eq = "computeEquilibrium params"
  let ?init = "init_state ?eq seed"
  let ?final = "fold (period params ?eq nJobsPerPeriod honestFraction) [0..<nPeriods] ?init"
  have i1: "length (providerProfits ?init) = length (clientLosses ?init)"
    by (simp add: init_state_def)
  have i2: "cumulativeWelfare ?init =
              map (\<lambda>(a, b). a - b) (zip (providerProfits ?init) (clientLosses ?init))"
    by (simp add: init_state_def)
  have i0: "length (providerProfits ?init) = 0"
    by (simp add: init_state_def)
  have ne: "[0..<nPeriods] \<noteq> []" using assms(1) by simp
  note m = periods_money[OF i1 i2 refl, of params ?eq nJobsPerPeriod honestFraction "[0..<nPeriods]"]
  have l1: "length (providerProfits ?final) = nPeriods"
    using m i0 by simp
  have l2: "length (clientLosses ?final) = nPeriods"
    using m l1 by simp
  have w: "cumulativeWelfare ?final =
             map (\<lambda>(a, b). a - b) (zip (providerProfits ?final) (clientLosses ?final))"
    using m by blast
  have sw: "last (cumulativeWelfare ?final) = cumProviderProfit ?final - cumClientLoss ?final"
    using m ne by blast
  have f: "providerProfits r = providerProfits ?final" "clientLosses r = clientLosses ?final"
    "cumulativeWelfare r = cumulativeWelfare ?final"
    "socialWelfare r = cumProviderProfit ?final - cumClientLoss ?final"
    unfolding assms(2)
    using runSimulation_fields[of params nPeriods nJobsPerPeriod honestFraction seed]
    by simp_all
  show ?thesis using l1 l2 sw by (simp add: f w)
qed

text \<open>Claim C8 at a run of three periods with the default parameters, read at the last
  period.\<close>

theorem welfare_is_profit_minus_loss_witness:
  "(1::nat) \<le> 3 \<and>
   length (cumulativeWelfare (runSimulation DEFAULT_PARAMS 3 20 0.6 42)) = 3 \<and>
   cumulativeWelfare (runSimulation DEFAULT_PARAMS 3 20 0.6 42) ! 2 =
     providerProfits (runSimulation DEFAULT_PARAMS 3 20 0.6 42) ! 2
       - clientLosses (runSimulation DEFAULT_PARAMS 3 20 0.6 42) ! 2 \<and>
   socialWelfare (runSimulation DEFAULT_PARAMS 3 20 0.6 42) =
     last (cumulativeWelfare (runSimulation DEFAULT_PARAMS 3 20 0.6 42))"
  using welfare_is_profit_minus_loss[of 3 "runSimulation DEFAULT_PARAMS 3 20 0.6 42"
      DEFAULT_PARAMS 20 "0.6" 42]
  by simp


section \<open>The simulation: rates\<close>









text \<open>A run of one period of one job, with seed 42 and an honest fraction of 1: the
  generator's first number is below 1, the provider is of the honest type, and the period
  has no fraud.\<close>

lemma excess_bits_numeral:
  "excess_bits (numeral k) =
     (if (numeral k :: nat) < 2 ^ 53 then 0 else Suc (excess_bits (numeral k div 2)))"
  by (rule excess_bits.simps)

lemma rng_next_42: "rng_next 42 = (1250496027 / 2147483647, 1250496027)"
  by (simp add: rng_next_def to_double_def Let_def excess_bits_numeral)

lemma honest_first_job:
  assumes "rng s = 42"
  shows "job p e 1 s = honest_job p (s\<lparr> totalJobs := totalJobs s + 1, rng := 1250496027 \<rparr>)"
  using assms by (simp add: job_def Let_def rng_next_42 provider_cheats_def)

lemma one_honest_job:
  "periodFrauds (run_jobs p e 1 1 (init_state e 42)) = 0"
  by (simp add: run_jobs_def honest_first_job init_state_def honest_job_def)



text \<open>With neither stake nor payment \<open>v_star\<close> is an infinity, and the audit rate
  recorded for that same run is NaN: the amended claim needs \<open>P_set + S_P\<close> not to be
  zero.\<close>

lemma no_stake_audit_rate:
  "auditRates (runSimulation no_stake_params 1 1 1 42) = [NaN]"
proof -
  let ?e = "computeEquilibrium no_stake_params"
  have v: "v_star ?e = PInf"
    by (simp add: v_star_computeEquilibrium computeVStar_def computeTheta_def jdiv_def
        jdiv_by_def no_stake_params_def DEFAULT_PARAMS_def)
  have q: "q_star ?e = 8 / 46.75"
    by (simp add: computeEquilibrium_def Let_def computeQStar_def computeDelta_def
        no_stake_params_def DEFAULT_PARAMS_def)
  have a: "adapt_audit_prob no_stake_params ?e [Fin 0] PInf = NaN"
    by (simp add: adapt_audit_prob_def Let_def v q jdiv_def jdiv_by_def jsub_def)
  show ?thesis
    using runSimulation_fields[of no_stake_params 1 1 1 42]
      period_rates[of no_stake_params ?e 1 1 0 "init_state ?e 42"]
      one_honest_job[of no_stake_params ?e]
    by (simp add: a push_recent_def Let_def recentWindowSize_def jdiv_def jdiv_by_def)
       (simp add: init_state_def v a)
qed




section \<open>The simulation: determinism\<close>

text \<open>
  A call in a store does to the state and to its own generator what the functions that
  pass the seed by value do, and touches no other object of the store.  Each function of
  the store model is related to its counterpart: started with the seed that the object
  at \<open>a\<close> holds, the counterpart computes the same state and the seed that the object
  holds afterwards.
\<close>

lemma SeededRandom_next_eq:
  "SeededRandom_next a w = (fst (rng_next (w ! a)), w[a := snd (rng_next (w ! a))])"
  by (simp add: SeededRandom_next_def split: prod.splits)

lemma provider_cheats_st_eq:
  assumes "a < length w"
  shows "provider_cheats_st p e ih s a w =
           (fst (provider_cheats p e ih (s\<lparr>rng := x\<rparr>) (w ! a)),
            w[a := snd (provider_cheats p e ih (s\<lparr>rng := x\<rparr>) (w ! a))])"
  using assms
  by (simp add: provider_cheats_st_def provider_cheats_def Let_def SeededRandom_next_eq
      split: prod.splits)

lemma fraud_job_st_eq:
  assumes "a < length w"
  shows "fraud_job_st p a (s, w) =
           ((fraud_job p (s\<lparr>rng := w ! a\<rparr>))\<lparr>rng := rng s\<rparr>,
            w[a := rng (fraud_job p (s\<lparr>rng := w ! a\<rparr>))])"
  using assms
  by (simp add: fraud_job_st_def fraud_job_def Let_def SeededRandom_next_eq
      split: prod.splits)


lemma rng_totalJobs_swap:
  "(s\<lparr>rng := x\<rparr>)\<lparr>totalJobs := y\<rparr> = (s\<lparr>totalJobs := y\<rparr>)\<lparr>rng := x\<rparr>"
  by (cases s) simp

lemma rng_reset_swap:
  "(s\<lparr>rng := x\<rparr>)\<lparr> periodFrauds := 0, periodDetected := 0, periodProviderProfit := 0,
          periodClientLoss := 0, periodAudits := 0 \<rparr> =
   (s\<lparr> periodFrauds := 0, periodDetected := 0, periodProviderProfit := 0,
          periodClientLoss := 0, periodAudits := 0 \<rparr>)\<lparr>rng := x\<rparr>"
  by (cases s) simp

lemma job_st_eq:
  assumes "a < length w"
  shows "job_st p e h a (s, w) =
           ((job p e h (s\<lparr>rng := w ! a\<rparr>))\<lparr>rng := rng s\<rparr>,
            w[a := rng (job p e h (s\<lparr>rng := w ! a\<rparr>))])"
proof -
  obtain r seed1 where r: "rng_next (w ! a) = (r, seed1)"
    by (cases "rng_next (w ! a)")
  let ?s1 = "s\<lparr>totalJobs := totalJobs s + 1\<rparr>"
  obtain cheats seed2 where c:
    "provider_cheats p e (r < h) (?s1\<lparr>rng := w ! a\<rparr>) seed1 = (cheats, seed2)"
    by (cases "provider_cheats p e (r < h) (?s1\<lparr>rng := w ! a\<rparr>) seed1")
  let ?w1 = "w[a := seed1]"
  have a1: "a < length ?w1" using assms by simp
  have n: "SeededRandom_next a w = (r, ?w1)"
    by (simp add: SeededRandom_next_eq r)
  have pc: "provider_cheats_st p e (r < h) ?s1 a ?w1 = (cheats, w[a := seed2])"
    using provider_cheats_st_eq[OF a1, of p e "r < h" ?s1 "w ! a"] assms c by simp
  have pure: "job p e h (s\<lparr>rng := w ! a\<rparr>) =
      (if cheats then fraud_job p (?s1\<lparr>rng := seed2\<rparr>) else honest_job p (?s1\<lparr>rng := seed2\<rparr>))"
    using r c by (simp add: job_def Let_def rng_totalJobs_swap)
  have a2: "a < length (w[a := seed2])" using assms by simp
  show ?thesis
  proof (cases cheats)
    case True
    have "job_st p e h a (s, w) = fraud_job_st p a (?s1, w[a := seed2])"
      using True n pc by (simp add: job_st_def Let_def)
    also have "\<dots> = ((fraud_job p (?s1\<lparr>rng := seed2\<rparr>))\<lparr>rng := rng s\<rparr>,
                     w[a := rng (fraud_job p (?s1\<lparr>rng := seed2\<rparr>))])"
      using fraud_job_st_eq[OF a2, of p ?s1] assms by simp
    finally show ?thesis using True pure by simp
  next
    case False
    have "job_st p e h a (s, w) = (honest_job p ?s1, w[a := seed2])"
      using False n pc by (simp add: job_st_def Let_def)
    then show ?thesis using False pure by (simp add: honest_job_def)
  qed
qed

lemma jobs_st_eq:
  assumes "a < length w"
  shows "fold (\<lambda>j. job_st p e h a) xs (s, w) =
           ((fold (\<lambda>j. job p e h) xs (s\<lparr>rng := w ! a\<rparr>))\<lparr>rng := rng s\<rparr>,
            w[a := rng (fold (\<lambda>j. job p e h) xs (s\<lparr>rng := w ! a\<rparr>))])"
  using assms
proof (induction xs arbitrary: s w)
  case Nil
  then show ?case by simp
next
  case (Cons x xs)
  let ?j = "job p e h (s\<lparr>rng := w ! a\<rparr>)"
  have a1: "a < length (w[a := rng ?j])" using Cons.prems by simp
  have restore: "(?j\<lparr>rng := rng s\<rparr>)\<lparr>rng := (w[a := rng ?j]) ! a\<rparr> = ?j"
    using Cons.prems by simp
  show ?case
    using Cons.prems
    by (simp add: job_st_eq Cons.IH[OF a1] restore)
qed

lemma run_jobs_st_eq:
  assumes "a < length w"
  shows "run_jobs_st p e n h a (s, w) =
           ((run_jobs p e n h (s\<lparr>rng := w ! a\<rparr>))\<lparr>rng := rng s\<rparr>,
            w[a := rng (run_jobs p e n h (s\<lparr>rng := w ! a\<rparr>))])"
  using jobs_st_eq[OF assms, of p e h "[0..<n]"
      "s\<lparr> periodFrauds := 0, periodDetected := 0, periodProviderProfit := 0,
          periodClientLoss := 0, periodAudits := 0 \<rparr>"]
  by (simp add: run_jobs_st_def run_jobs_def rng_reset_swap)

lemma period_rng: "rng (period p e n h t s) = rng (run_jobs p e n h s)"
  by (simp add: period_def Let_def)

lemma period_st_eq:
  assumes "a < length w"
  shows "period_st p e n h a t (s, w) =
           ((period p e n h t (s\<lparr>rng := w ! a\<rparr>))\<lparr>rng := rng s\<rparr>,
            w[a := rng (period p e n h t (s\<lparr>rng := w ! a\<rparr>))])"
  by (simp add: period_st_def period_def Let_def run_jobs_st_eq[OF assms])

lemma periods_st_eq:
  assumes "a < length w"
  shows "fold (period_st p e n h a) ts (s, w) =
           ((fold (period p e n h) ts (s\<lparr>rng := w ! a\<rparr>))\<lparr>rng := rng s\<rparr>,
            w[a := rng (fold (period p e n h) ts (s\<lparr>rng := w ! a\<rparr>))])"
  using assms
proof (induction ts arbitrary: s w)
  case Nil
  then show ?case by simp
next
  case (Cons t ts)
  let ?j = "period p e n h t (s\<lparr>rng := w ! a\<rparr>)"
  have a1: "a < length (w[a := rng ?j])" using Cons.prems by simp
  have restore: "(?j\<lparr>rng := rng s\<rparr>)\<lparr>rng := (w[a := rng ?j]) ! a\<rparr> = ?j"
    using Cons.prems by simp
  show ?case
    using Cons.prems
    by (simp add: period_st_eq Cons.IH[OF a1] restore)
qed

lemma init_state_rng: "(init_state e seed)\<lparr>rng := seed\<rparr> = init_state e seed"
  by (simp add: init_state_def)

lemma runSimulation_st_eq:
  "runSimulation_st w params nPeriods nJobsPerPeriod honestFraction seed =
     (runSimulation params nPeriods nJobsPerPeriod honestFraction seed,
      w @ [rng (fold (period params (computeEquilibrium params) nJobsPerPeriod honestFraction)
                  [0..<nPeriods] (init_state (computeEquilibrium params) seed))])"
proof -
  have a: "length w < length (w @ [seed])" by simp
  show ?thesis
    by (simp add: runSimulation_st_def runSimulation_def SeededRandom_new_def Let_def
        periods_st_eq[OF a] init_state_rng)
qed

text \<open>
  Claim C6.  \<open>runSimulation\<close> is deterministic: two calls with the same arguments return
  the same result, every series and every summary number (with NaN equal to itself),
  whatever generators earlier calls have left in the store; in particular a second call,
  made in the store the first one leaves, returns what the first returned.  The generator
  of a call is allocated by the call, and a call reads no other object.
\<close>

theorem runSimulation_deterministic:
  "fst (runSimulation_st w params nPeriods nJobsPerPeriod honestFraction seed) =
     fst (runSimulation_st w' params nPeriods nJobsPerPeriod honestFraction seed) \<and>
   fst (runSimulation_st
          (snd (runSimulation_st w params nPeriods nJobsPerPeriod honestFraction seed))
          params nPeriods nJobsPerPeriod honestFraction seed) =
     fst (runSimulation_st w params nPeriods nJobsPerPeriod honestFraction seed)"
  by (simp add: runSimulation_st_eq)


section \<open>Sensitivity analysis: claims\<close>

text \<open>The loop appends one entry per value to each series and one object per value to
  the store; the caller's object, below the end of the store, is read and not written.\<close>

lemma sensitivity_fold:
  assumes "b < length h"
  shows "fold (sensitivity_step b k) vs (res, h) =
           (res\<lparr> q_star_s := q_star_s res @ map (\<lambda>v. q_star (computeEquilibrium (with_param (h ! b) k v))) vs,
                 v_star_s := v_star_s res @ map (\<lambda>v. v_star (computeEquilibrium (with_param (h ! b) k v))) vs,
                 Delta_s := Delta_s res @ map (\<lambda>v. Delta (computeEquilibrium (with_param (h ! b) k v))) vs,
                 S_P_min_s := S_P_min_s res @ map (\<lambda>v. S_P_min (computeEquilibrium (with_param (h ! b) k v))) vs \<rparr>,
            h @ map (with_param (h ! b) k) vs)"
  using assms
proof (induction vs arbitrary: res h)
  case Nil
  then show ?case by simp
next
  case (Cons v vs)
  let ?h = "h @ [with_param (h ! b) k v]"
  have b': "b < length ?h" using Cons.prems by simp
  have same: "?h ! b = h ! b" using Cons.prems by (simp add: nth_append)
  have step: "sensitivity_step b k v (res, h) =
      (res\<lparr> q_star_s := q_star_s res @ [q_star (computeEquilibrium (with_param (h ! b) k v))],
            v_star_s := v_star_s res @ [v_star (computeEquilibrium (with_param (h ! b) k v))],
            Delta_s := Delta_s res @ [Delta (computeEquilibrium (with_param (h ! b) k v))],
            S_P_min_s := S_P_min_s res @ [S_P_min (computeEquilibrium (with_param (h ! b) k v))] \<rparr>, ?h)"
    by (simp add: sensitivity_step_def alloc_def Let_def)
  show ?case
    by (simp add: step Cons.IH[OF b'] same)
qed

text \<open>The object the code builds with the spread expression is the base object with the
  named field replaced, field by field.\<close>

lemma with_param_field_replaced: "with_param p k v = field_replaced p k v"
  by (cases p; cases k) (simp_all add: field_replaced_def)

text \<open>
  Claim C7.  For every base parameter object, every parameter name and every array of
  values, \<open>sensitivityAnalysis\<close> returns four series as long as the array of values; entry
  \<open>i\<close> of each series is the corresponding field of \<open>computeEquilibrium\<close> applied to the base
  parameters with the named field replaced by value \<open>i\<close> (the named field is value \<open>i\<close>,
  every other field is that of the base parameters); and the base object is not changed
  (nor is any other object the store held before the call).
\<close>

theorem sensitivityAnalysis_aligned:
  assumes "baseParams < length h"
    and "sensitivityAnalysis h baseParams paramName vals = (results, h')"
  shows "length (q_star_s results) = length vals \<and> length (v_star_s results) = length vals \<and>
         length (Delta_s results) = length vals \<and> length (S_P_min_s results) = length vals \<and>
         (\<forall>i<length vals.
            q_star_s results ! i =
              q_star (computeEquilibrium (field_replaced (h ! baseParams) paramName (vals ! i))) \<and>
            v_star_s results ! i =
              v_star (computeEquilibrium (field_replaced (h ! baseParams) paramName (vals ! i))) \<and>
            Delta_s results ! i =
              Delta (computeEquilibrium (field_replaced (h ! baseParams) paramName (vals ! i))) \<and>
            S_P_min_s results ! i =
              S_P_min (computeEquilibrium (field_replaced (h ! baseParams) paramName (vals ! i)))) \<and>
         values_s results = vals \<and>
         h' ! baseParams = h ! baseParams \<and> take (length h) h' = h"
  using assms(2) unfolding sensitivityAnalysis_def sensitivity_fold[OF assms(1)]
  using assms(1) by (auto simp add: nth_append with_param_field_replaced)

text \<open>Claim C7 for a sweep of the stake over 50 and 200 from the default parameters, the
  only object of the store: \<open>v_star\<close> is 4.5 / 100 and 4.5 / 250, \<open>Delta\<close> is 68 and
  139.25, and the default parameters are still in place.\<close>

theorem sensitivityAnalysis_aligned_witness:
  "(0::nat) < length [DEFAULT_PARAMS] \<and>
   length (v_star_s (fst (sensitivityAnalysis [DEFAULT_PARAMS] 0 Key_S_P [50, 200]))) = 2 \<and>
   v_star_s (fst (sensitivityAnalysis [DEFAULT_PARAMS] 0 Key_S_P [50, 200])) ! 0 = Fin 0.045 \<and>
   v_star_s (fst (sensitivityAnalysis [DEFAULT_PARAMS] 0 Key_S_P [50, 200])) ! 1 = Fin 0.018 \<and>
   Delta_s (fst (sensitivityAnalysis [DEFAULT_PARAMS] 0 Key_S_P [50, 200])) ! 0 = 68 \<and>
   Delta_s (fst (sensitivityAnalysis [DEFAULT_PARAMS] 0 Key_S_P [50, 200])) ! 1 = 139.25 \<and>
   snd (sensitivityAnalysis [DEFAULT_PARAMS] 0 Key_S_P [50, 200]) ! 0 = DEFAULT_PARAMS"
proof -
  have h: "(0::nat) < length [DEFAULT_PARAMS]" by simp
  have v: "v_star (computeEquilibrium (field_replaced DEFAULT_PARAMS Key_S_P 50)) = Fin 0.045"
    "v_star (computeEquilibrium (field_replaced DEFAULT_PARAMS Key_S_P 200)) = Fin 0.018"
    by (simp_all add: v_star_computeEquilibrium computeVStar_Fin field_replaced_def
        DEFAULT_PARAMS_def)
  have d: "Delta (computeEquilibrium (field_replaced DEFAULT_PARAMS Key_S_P 50)) = 68"
    "Delta (computeEquilibrium (field_replaced DEFAULT_PARAMS Key_S_P 200)) = 139.25"
    by (simp_all add: computeEquilibrium_def Let_def computeDelta_def field_replaced_def
        DEFAULT_PARAMS_def)
  from sensitivityAnalysis_aligned[OF h, of Key_S_P "[50, 200]"
      "fst (sensitivityAnalysis [DEFAULT_PARAMS] 0 Key_S_P [50, 200])"
      "snd (sensitivityAnalysis [DEFAULT_PARAMS] 0 Key_S_P [50, 200])"]
  show ?thesis by (simp add: v d)
qed


section \<open>Attack evaluator: claims\<close>

text \<open>
  Claim C9.  For every parameter record, attack type and number of periods, the severity
  that \<open>simulateAttack\<close> returns is a step function of the welfare loss it returns, with
  strict thresholds: critical exactly above 5000, high exactly above 2000 and up to 5000,
  medium exactly above 500 and up to 2000, low otherwise (a loss of exactly 500, 2000 or
  5000 is in the lower class); and the attacker's profit is 0.4 times the welfare loss.
\<close>

theorem severity_thresholds:
  "(severity (simulateAttack params attackType nPeriods) = critical) =
     (5000 < welfareLoss (simulateAttack params attackType nPeriods)) \<and>
   (severity (simulateAttack params attackType nPeriods) = high) =
     (2000 < welfareLoss (simulateAttack params attackType nPeriods) \<and>
      welfareLoss (simulateAttack params attackType nPeriods) \<le> 5000) \<and>
   (severity (simulateAttack params attackType nPeriods) = medium) =
     (500 < welfareLoss (simulateAttack params attackType nPeriods) \<and>
      welfareLoss (simulateAttack params attackType nPeriods) \<le> 2000) \<and>
   (severity (simulateAttack params attackType nPeriods) = low) =
     (welfareLoss (simulateAttack params attackType nPeriods) \<le> 500) \<and>
   attackerProfit (simulateAttack params attackType nPeriods) =
     0.4 * welfareLoss (simulateAttack params attackType nPeriods)"
  by (simp add: simulateAttack_def Let_def split: prod.splits)

end
